theory Spec2Isabelle
  imports Complex_Main "HOL-Library.Sublist"
begin

section \<open>Python values\<close>

text \<open>
  A Python \<open>str\<close> is a sequence of Unicode code points; \<open>len\<close>, centring and
  \<open>capitalize\<close> count code points, and \<open>quote_plus\<close> sees them through their UTF-8
  encoding. A \<open>str\<close> is therefore a list of code points, and \<open>bytes\<close> a list of
  numbers below 256. ASCII literals of the source are written with \<open>ascii\<close>.
\<close>

type_synonym pystr = "nat list"
type_synonym pybytes = "nat list"

definition ascii :: "string \<Rightarrow> pystr" where
  "ascii s = map of_char s"

text \<open>The exceptions that the program can meet, and the three ways a call can end.\<close>

datatype exn = KeyError pystr | IndexError | TypeError | AttributeError
  | UnicodeEncodeError | UnicodeDecodeError | JSONDecodeError | URLError | InvalidURL
  | ConfigparserError | InterpolationSyntaxError

datatype 'a result = Return 'a | Raise exn | SystemExit pystr

fun bind :: "'a result \<Rightarrow> ('a \<Rightarrow> 'b result) \<Rightarrow> 'b result" where
  "bind (Return x) f = f x"
| "bind (Raise e) f = Raise e"
| "bind (SystemExit m) f = SystemExit m"

text \<open>
  What \<open>json.loads\<close> returns: \<open>None\<close>, booleans, integers, floats, strings, lists and
  dicts. A float is a real number or one of the three special values; only its equality
  with integers is computed here, its text is left to the library (\<open>py_lib\<close> below).
\<close>

datatype pyfloat = Finite real | PosInf | NegInf | NaN

datatype json = JNull | JBool bool | JInt int | JFloat pyfloat | JStr pystr
  | JList "json list" | JDict "(pystr \<times> json) list"

section \<open>The weather condition codes (lines 13 to 30)\<close>

datatype int_container = Range int int | Tuple "int list"

definition THUNDERSTORM :: int_container where "THUNDERSTORM = Range 200 300"
definition DRIZZLE :: int_container where "DRIZZLE = Range 300 400"
definition RAIN :: int_container where "RAIN = Range 500 600"
definition SNOW :: int_container where "SNOW = Range 600 700"
definition MIST :: int_container where "MIST = Tuple [701]"
definition SMOKE :: int_container where "SMOKE = Tuple [711]"
definition HAZE :: int_container where "HAZE = Tuple [721]"
definition DUSTWHRIL :: int_container where "DUSTWHRIL = Tuple [731]"
definition FOG :: int_container where "FOG = Tuple [741]"
definition SAND :: int_container where "SAND = Tuple [751]"
definition DUST :: int_container where "DUST = Tuple [761]"
definition ASH :: int_container where "ASH = Tuple [762]"
definition SQUALL :: int_container where "SQUALL = Tuple [771]"
definition TORNADO :: int_container where "TORNADO = Tuple [781]"
definition CLEAR :: int_container where "CLEAR = Range 800 801"
definition CLOUDY :: int_container where "CLOUDY = Range 801 900"

text \<open>
  \<open>x in range(a, b)\<close> and \<open>x in (c,)\<close> compare \<open>x\<close> with integers: an \<open>int\<close> is
  itself, a \<open>bool\<close> is 0 or 1, a float equals the integer it denotes if it denotes one, and
  every other value equals no integer.
\<close>

fun int_value :: "json \<Rightarrow> int option" where
  "int_value (JInt n) = Some n"
| "int_value (JBool b) = Some (if b then 1 else 0)"
| "int_value (JFloat (Finite x)) = (if of_int \<lfloor>x\<rfloor> = x then Some \<lfloor>x\<rfloor> else None)"
| "int_value _ = None"

fun py_in :: "json \<Rightarrow> int_container \<Rightarrow> bool" where
  "py_in x (Range a b) = (case int_value x of Some n \<Rightarrow> a \<le> n \<and> n < b | None \<Rightarrow> False)"
| "py_in x (Tuple cs) = (case int_value x of Some n \<Rightarrow> n \<in> set cs | None \<Rightarrow> False)"

section \<open>Symbols and colours (lines 134 to 178)\<close>

text \<open>
  The colours are attributes of the module \<open>style\<close>, which the program imports; the
  selection returns the attribute it names. The symbols are the string literals of the
  source, code point by code point as the file holds them.
\<close>

datatype color = style_REVERSE | style_RESET | style_RED | style_CYAN | style_BLUE
  | style_WHITE | style_PALEBLUEHUE | style_ASH | style_LIGHTBLUE | style_BROWN
  | style_YELLOW

definition symbol_thunderstorm :: pystr where
  "symbol_thunderstorm = [0xE2, 0x203A, 0x2C6, 0xEF, 0xB8]"
definition symbol_drizzle :: pystr where
  "symbol_drizzle = [0x11F, 0x178, 0x152, 0xA7, 0xEF, 0xB8]"
definition symbol_rain :: pystr where
  "symbol_rain = [0xE2, 0x2DC, 0x201D]"
definition symbol_snow :: pystr where
  "symbol_snow = [0xE2, 0x201E, 0xEF, 0xB8]"
definition symbol_mist :: pystr where
  "symbol_mist = [0x11F, 0x178, 0x152, 0xAB, 0xEF, 0xB8]"
definition symbol_smoke :: pystr where
  "symbol_smoke = [0x11F, 0x178, 0x2019, 0xA8]"
definition symbol_haze :: pystr where
  "symbol_haze = [0x11F, 0x178, 0x2DC, 0xB6, 0xE2, 0x20AC, 0x11F, 0x178, 0x152, 0xAB, 0xEF, 0xB8]"
definition symbol_dustwhirl :: pystr where
  "symbol_dustwhirl = [0x11F, 0x178, 0x152, 0xAA, 0xEF, 0xB8]"
definition symbol_fog :: pystr where
  "symbol_fog = [0x11F, 0x178, 0x2DC, 0xB6, 0xE2, 0x20AC, 0x11F, 0x178, 0x152, 0xAB, 0xEF, 0xB8]"
definition symbol_sand :: pystr where
  "symbol_sand = [0x11F, 0x178, 0x153, 0xEF, 0xB8]"
definition symbol_dust :: pystr where
  "symbol_dust = [0x11F, 0x178, 0x2019, 0xA8]"
definition symbol_ash :: pystr where
  "symbol_ash = [0x11F, 0x178, 0x152, 0x2039]"
definition symbol_squall :: pystr where
  "symbol_squall = [0x11F, 0x178, 0x152, 0xAC, 0xEF, 0xB8]"
definition symbol_tornado :: pystr where
  "symbol_tornado = [0x11F, 0x178, 0x152, 0xAA, 0xEF, 0xB8]"
definition symbol_clear :: pystr where
  "symbol_clear = [0xE2, 0x2DC, 0x20AC, 0xEF, 0xB8]"
definition symbol_cloudy :: pystr where
  "symbol_cloudy = [0xE2, 0x203A, 0x2026]"
definition symbol_rainbow :: pystr where
  "symbol_rainbow = [0x11F, 0x178, 0x152, 0x2C6]"

definition select_weather_display_params :: "json \<Rightarrow> pystr \<times> color" where
  "select_weather_display_params weather_id =
    (if py_in weather_id THUNDERSTORM then (symbol_thunderstorm, style_RED)
     else if py_in weather_id DRIZZLE then (symbol_drizzle, style_CYAN)
     else if py_in weather_id RAIN then (symbol_rain, style_BLUE)
     else if py_in weather_id SNOW then (symbol_snow, style_WHITE)
     else if py_in weather_id MIST then (symbol_mist, style_PALEBLUEHUE)
     else if py_in weather_id SMOKE then (symbol_smoke, style_ASH)
     else if py_in weather_id HAZE then (symbol_haze, style_LIGHTBLUE)
     else if py_in weather_id DUSTWHRIL then (symbol_dustwhirl, style_BROWN)
     else if py_in weather_id FOG then (symbol_fog, style_ASH)
     else if py_in weather_id SAND then (symbol_sand, style_YELLOW)
     else if py_in weather_id DUST then (symbol_dust, style_BROWN)
     else if py_in weather_id ASH then (symbol_ash, style_RED)
     else if py_in weather_id SQUALL then (symbol_squall, style_BLUE)
     else if py_in weather_id TORNADO then (symbol_tornado, style_WHITE)
     else if py_in weather_id CLEAR then (symbol_clear, style_YELLOW)
     else if py_in weather_id CLOUDY then (symbol_cloudy, style_WHITE)
     else (symbol_rainbow, style_RESET))"

text \<open>
  The table of the specification, section 4.5: the rows in their order, and the lookup
  that takes the first row that holds the code, the fallback pair if none does.
\<close>

definition display_table :: "(int_container \<times> (pystr \<times> color)) list" where
  "display_table =
    [(Range 200 300, (symbol_thunderstorm, style_RED)),
     (Range 300 400, (symbol_drizzle, style_CYAN)),
     (Range 500 600, (symbol_rain, style_BLUE)),
     (Range 600 700, (symbol_snow, style_WHITE)),
     (Tuple [701], (symbol_mist, style_PALEBLUEHUE)),
     (Tuple [711], (symbol_smoke, style_ASH)),
     (Tuple [721], (symbol_haze, style_LIGHTBLUE)),
     (Tuple [731], (symbol_dustwhirl, style_BROWN)),
     (Tuple [741], (symbol_fog, style_ASH)),
     (Tuple [751], (symbol_sand, style_YELLOW)),
     (Tuple [761], (symbol_dust, style_BROWN)),
     (Tuple [762], (symbol_ash, style_RED)),
     (Tuple [771], (symbol_squall, style_BLUE)),
     (Tuple [781], (symbol_tornado, style_WHITE)),
     (Range 800 801, (symbol_clear, style_YELLOW)),
     (Range 801 900, (symbol_cloudy, style_WHITE))]"

fun first_match :: "(int_container \<times> 'a) list \<Rightarrow> 'a \<Rightarrow> int \<Rightarrow> 'a" where
  "first_match [] d w = d"
| "first_match ((c, v) # rows) d w = (if py_in (JInt w) c then v else first_match rows d w)"

text \<open>The codes that no row of the table lists.\<close>

definition listed :: "int \<Rightarrow> bool" where
  "listed w \<longleftrightarrow> (200 \<le> w \<and> w < 400) \<or> (500 \<le> w \<and> w < 700)
     \<or> w \<in> {701, 711, 721, 731, 741, 751, 761, 762, 771, 781} \<or> (800 \<le> w \<and> w < 900)"

section \<open>Text of numbers, centring, capitalisation\<close>

text \<open>\<open>str\<close> of an integer: its decimal digits, with a minus sign below zero.\<close>

function digits_of :: "nat \<Rightarrow> pystr" where
  "digits_of n = (if n < 10 then [0x30 + n] else digits_of (n div 10) @ [0x30 + n mod 10])"
  by pat_completeness auto
termination
  by (relation "measure id") auto

definition str_int :: "int \<Rightarrow> pystr" where
  "str_int i = (if i < 0 then 0x2D # digits_of (nat (- i)) else digits_of (nat i))"

text \<open>
  The format specification \<open>^width\<close>: a text shorter than the field is padded with
  spaces, the left side getting half of the padding rounded down.
\<close>

definition center :: "pystr \<Rightarrow> nat \<Rightarrow> pystr" where
  "center s width =
    (if width \<le> length s then s
     else (let pad = width - length s; left = pad div 2
           in replicate left 0x20 @ s @ replicate (pad - left) 0x20))"

text \<open>
  What the program takes from outside its own file. The module \<open>style\<close> gives the
  width \<open>PADDING\<close> and \<open>change_color\<close>, of which only the text it sends to standard
  output matters here. The Python library gives the text of a float and of a list or
  dict, the case mapping of strings beyond ASCII, the decoders of UTF-16 and UTF-32 and the
  JSON scanner that turns decoded text into a value or raises.
\<close>

record style_module =
  PADDING :: nat
  change_color :: "color \<Rightarrow> pystr"

datatype encoding = UTF8 | UTF8_SIG | UTF16 | UTF16_BE | UTF16_LE | UTF32 | UTF32_BE | UTF32_LE

record py_lib =
  repr_float :: "real \<Rightarrow> pystr"
  repr_container :: "json \<Rightarrow> pystr"
  capitalize_unicode :: "pystr \<Rightarrow> pystr"
  decode_other :: "encoding \<Rightarrow> pybytes \<Rightarrow> pystr option"
  json_scan :: "pystr \<Rightarrow> json result"

definition ascii_upper :: "nat \<Rightarrow> nat" where
  "ascii_upper c = (if 0x61 \<le> c \<and> c \<le> 0x7A then c - 0x20 else c)"

definition ascii_lower :: "nat \<Rightarrow> nat" where
  "ascii_lower c = (if 0x41 \<le> c \<and> c \<le> 0x5A then c + 0x20 else c)"

text \<open>\<open>str.capitalize\<close>: the first character in upper case, the others in lower case.\<close>

definition capitalize :: "py_lib \<Rightarrow> pystr \<Rightarrow> pystr" where
  "capitalize lib s =
    (if list_all (\<lambda>c. c < 0x80) s
     then (case s of [] \<Rightarrow> [] | c # cs \<Rightarrow> ascii_upper c # map ascii_lower cs)
     else capitalize_unicode lib s)"

text \<open>\<open>str(v)\<close>, which an f-string field without format specification gives.\<close>

fun py_str :: "py_lib \<Rightarrow> json \<Rightarrow> pystr" where
  "py_str lib (JStr s) = s"
| "py_str lib (JInt n) = str_int n"
| "py_str lib (JBool b) = (if b then ascii ''True'' else ascii ''False'')"
| "py_str lib JNull = ascii ''None''"
| "py_str lib (JFloat (Finite x)) = repr_float lib x"
| "py_str lib (JFloat PosInf) = ascii ''inf''"
| "py_str lib (JFloat NegInf) = ascii ''-inf''"
| "py_str lib (JFloat NaN) = ascii ''nan''"
| "py_str lib v = repr_container lib v"

text \<open>
  \<open>format(v, "^width")\<close>: strings and numbers are centred (a \<open>bool\<close> as the integer it
  is), \<open>None\<close>, lists and dicts refuse a format specification.
\<close>

fun format_center :: "py_lib \<Rightarrow> json \<Rightarrow> nat \<Rightarrow> pystr result" where
  "format_center lib (JStr s) width = Return (center s width)"
| "format_center lib (JInt n) width = Return (center (str_int n) width)"
| "format_center lib (JBool b) width = Return (center (if b then ascii ''1'' else ascii ''0'') width)"
| "format_center lib (JFloat f) width = Return (center (py_str lib (JFloat f)) width)"
| "format_center lib v width = Raise TypeError"

section \<open>Subscripting a parsed response\<close>

text \<open>\<open>obj[key]\<close> with a string key and \<open>obj[i]\<close> with an integer index.\<close>

fun getitem_str :: "json \<Rightarrow> pystr \<Rightarrow> json result" where
  "getitem_str (JDict d) k = (case map_of d k of Some v \<Rightarrow> Return v | None \<Rightarrow> Raise (KeyError k))"
| "getitem_str v k = Raise TypeError"

text \<open>
  The position that an index denotes in a sequence of the given length: a negative index
  counts from the end, and an index outside the sequence denotes nothing.
\<close>

definition py_index :: "nat \<Rightarrow> int \<Rightarrow> nat option" where
  "py_index len i =
    (if 0 \<le> i \<and> i < int len then Some (nat i)
     else if i < 0 \<and> - int len \<le> i then Some (nat (int len + i))
     else None)"

fun getitem_int :: "json \<Rightarrow> int \<Rightarrow> json result" where
  "getitem_int (JList xs) i =
    (case py_index (length xs) i of Some k \<Rightarrow> Return (xs ! k) | None \<Rightarrow> Raise IndexError)"
| "getitem_int (JStr s) i =
    (case py_index (length s) i of Some k \<Rightarrow> Return (JStr [s ! k]) | None \<Rightarrow> Raise IndexError)"
| "getitem_int (JDict d) i = Raise (KeyError (str_int i))"
| "getitem_int v i = Raise TypeError"

section \<open>UTF-8 and percent-encoding\<close>

definition is_surrogate :: "nat \<Rightarrow> bool" where
  "is_surrogate c \<longleftrightarrow> 0xD800 \<le> c \<and> c \<le> 0xDFFF"

text \<open>
  \<open>str.encode("utf-8")\<close> with strict error handling, which \<open>quote\<close> applies: a
  surrogate code point cannot be encoded.
\<close>

definition utf8_char :: "nat \<Rightarrow> pybytes option" where
  "utf8_char c =
    (if c < 0x80 then Some [c]
     else if c < 0x800 then Some [0xC0 + c div 64, 0x80 + c mod 64]
     else if is_surrogate c then None
     else if c < 0x10000 then
       Some [0xE0 + c div 4096, 0x80 + c div 64 mod 64, 0x80 + c mod 64]
     else if c < 0x110000 then
       Some [0xF0 + c div 262144, 0x80 + c div 4096 mod 64, 0x80 + c div 64 mod 64,
             0x80 + c mod 64]
     else None)"

fun utf8_encode :: "pystr \<Rightarrow> pybytes result" where
  "utf8_encode [] = Return []"
| "utf8_encode (c # cs) =
    (case utf8_char c of
       None \<Rightarrow> Raise UnicodeEncodeError
     | Some e \<Rightarrow> bind (utf8_encode cs) (\<lambda>rest. Return (e @ rest)))"

definition continuation :: "nat \<Rightarrow> bool" where
  "continuation b \<longleftrightarrow> 0x80 \<le> b \<and> b < 0xC0"

text \<open>
  \<open>bytes.decode("utf-8")\<close>: \<open>None\<close> where Python raises \<open>UnicodeDecodeError\<close>. With
  \<open>sp\<close> (the error handler \<open>surrogatepass\<close>) encoded surrogates are let through.
\<close>

fun utf8_decode :: "bool \<Rightarrow> pybytes \<Rightarrow> pystr option" where
  "utf8_decode sp [] = Some []"
| "utf8_decode sp (b # bs) =
    (if b < 0x80 then map_option ((#) b) (utf8_decode sp bs)
     else if 0xC2 \<le> b \<and> b < 0xE0 then
       (case bs of
          b1 # r \<Rightarrow>
            if continuation b1
            then map_option ((#) ((b - 0xC0) * 64 + (b1 - 0x80))) (utf8_decode sp r)
            else None
        | _ \<Rightarrow> None)
     else if 0xE0 \<le> b \<and> b < 0xF0 then
       (case bs of
          b1 # b2 # r \<Rightarrow>
            (let c = (b - 0xE0) * 4096 + (b1 - 0x80) * 64 + (b2 - 0x80)
             in if continuation b1 \<and> continuation b2 \<and> 0x800 \<le> c
                   \<and> (sp \<or> \<not> is_surrogate c)
                then map_option ((#) c) (utf8_decode sp r) else None)
        | _ \<Rightarrow> None)
     else if 0xF0 \<le> b \<and> b < 0xF5 then
       (case bs of
          b1 # b2 # b3 # r \<Rightarrow>
            (let c = (b - 0xF0) * 262144 + (b1 - 0x80) * 4096 + (b2 - 0x80) * 64 + (b3 - 0x80)
             in if continuation b1 \<and> continuation b2 \<and> continuation b3
                   \<and> 0x10000 \<le> c \<and> c < 0x110000
                then map_option ((#) c) (utf8_decode sp r) else None)
        | _ \<Rightarrow> None)
     else None)"

text \<open>
  \<open>urllib.parse.quote\<close>: letters, digits and \<open>_.-~\<close> are always kept, as are the
  characters of \<open>safe\<close>; every other byte becomes \<open>%XX\<close> in upper-case hexadecimal.
\<close>

definition always_safe :: "nat \<Rightarrow> bool" where
  "always_safe b \<longleftrightarrow> (0x41 \<le> b \<and> b \<le> 0x5A) \<or> (0x61 \<le> b \<and> b \<le> 0x7A)
     \<or> (0x30 \<le> b \<and> b \<le> 0x39) \<or> b = 0x5F \<or> b = 0x2E \<or> b = 0x2D \<or> b = 0x7E"

definition hex_digit :: "nat \<Rightarrow> nat" where
  "hex_digit n = (if n < 10 then 0x30 + n else 0x37 + n)"

definition quote_byte :: "pystr \<Rightarrow> nat \<Rightarrow> pystr" where
  "quote_byte safe b =
    (if always_safe b \<or> b \<in> set safe then [b]
     else [0x25, hex_digit (b div 16), hex_digit (b mod 16)])"

definition quote :: "pystr \<Rightarrow> pystr \<Rightarrow> pystr result" where
  "quote string safe =
    bind (utf8_encode string) (\<lambda>bs. Return (concat (map (quote_byte safe) bs)))"

text \<open>
  \<open>urllib.parse.quote_plus\<close> with its default \<open>safe = ""\<close>: without a space the text
  is quoted as it is; otherwise the space is kept by \<open>quote\<close> and then replaced by \<open>+\<close>.
\<close>

definition quote_plus :: "pystr \<Rightarrow> pystr result" where
  "quote_plus string =
    (if 0x20 \<notin> set string then quote string []
     else bind (quote string [0x20])
            (\<lambda>q. Return (map (\<lambda>c. if c = 0x20 then 0x2B else c) q)))"

section \<open>Reading a query parameter back\<close>

text \<open>
  The decoding that the round-trip property speaks of: the query component of a URL lies
  between the first \<open>?\<close> and the fragment, its fields are separated by \<open>&\<close>, a field is
  a name and a value separated by its first \<open>=\<close>, and a value is decoded by turning
  \<open>+\<close> into a space, \<open>%XX\<close> into the byte \<open>XX\<close> and the bytes, as UTF-8, into text.
\<close>

definition is_hex :: "nat \<Rightarrow> bool" where
  "is_hex c \<longleftrightarrow> (0x30 \<le> c \<and> c \<le> 0x39) \<or> (0x41 \<le> c \<and> c \<le> 0x46) \<or> (0x61 \<le> c \<and> c \<le> 0x66)"

definition hex_val :: "nat \<Rightarrow> nat" where
  "hex_val c = (if c \<le> 0x39 then c - 0x30 else if c \<le> 0x46 then c - 0x37 else c - 0x57)"

fun unquote_to_bytes :: "pystr \<Rightarrow> pybytes" where
  "unquote_to_bytes (p # a # b # rest) =
    (if p = 0x25 \<and> is_hex a \<and> is_hex b
     then (hex_val a * 16 + hex_val b) # unquote_to_bytes rest
     else p # unquote_to_bytes (a # b # rest))"
| "unquote_to_bytes (p # rest) = p # unquote_to_bytes rest"
| "unquote_to_bytes [] = []"

definition percent_decode :: "pystr \<Rightarrow> pystr option" where
  "percent_decode v =
    utf8_decode False (unquote_to_bytes (map (\<lambda>c. if c = 0x2B then 0x20 else c) v))"

fun split_on :: "nat \<Rightarrow> pystr \<Rightarrow> pystr list" where
  "split_on sep [] = [[]]"
| "split_on sep (c # cs) =
    (if c = sep then [] # split_on sep cs
     else (case split_on sep cs of f # fs \<Rightarrow> (c # f) # fs | [] \<Rightarrow> [[c]]))"

definition query_component :: "pystr \<Rightarrow> pystr" where
  "query_component url = drop 1 (dropWhile (\<lambda>c. c \<noteq> 0x3F) (takeWhile (\<lambda>c. c \<noteq> 0x23) url))"

definition field_name :: "pystr \<Rightarrow> pystr" where
  "field_name f = takeWhile (\<lambda>c. c \<noteq> 0x3D) f"

definition field_value :: "pystr \<Rightarrow> pystr" where
  "field_value f = drop 1 (dropWhile (\<lambda>c. c \<noteq> 0x3D) f)"

definition query_param :: "pystr \<Rightarrow> pystr \<Rightarrow> pystr option" where
  "query_param name url =
    (case find (\<lambda>f. field_name f = name) (split_on 0x26 (query_component url)) of
       None \<Rightarrow> None
     | Some f \<Rightarrow> percent_decode (field_value f))"

section \<open>The world around the program\<close>

text \<open>
  The file \<open>secrets.ini\<close> is absent, or \<open>config.read\<close> refuses it (a line outside a
  section, a section or option given twice, a line that is no option), or it holds an
  \<open>api_key\<close> whose percent signs the \<open>ConfigParser\<close> cannot interpolate, or it holds
  sections of options as the \<open>ConfigParser\<close> serves them. For a URL, \<open>urlopen\<close> gives
  a response with a body, or raises for an HTTP error status, or reaches no server, or
  refuses the URL before anything is sent (a space or a control character in it). The
  world also records the requests made and the text written to standard output.
\<close>

datatype ini_file = NoFile | Malformed | BadInterpolation
  | Sections "(pystr \<times> (pystr \<times> pystr) list) list"

datatype urlopen_result = Response pybytes | HTTPError int | Unreachable | Refused

record world =
  secrets_ini :: ini_file
  server :: "pystr \<Rightarrow> urlopen_result"
  requests :: "pystr list"
  stdout :: pystr

text \<open>
  How the process ends: status 0 after a normal return; \<open>sys.exit\<close> with a message
  writes the message to standard error and gives status 1, and so does an exception that
  nothing catches, with its traceback.
\<close>

fun exit_status :: "'a result \<Rightarrow> nat" where
  "exit_status (Return x) = 0"
| "exit_status (Raise e) = 1"
| "exit_status (SystemExit m) = 1"

section \<open>Credentials and query (lines 46 to 76)\<close>

definition get_api_key :: "world \<Rightarrow> pystr result \<times> world" where
  "get_api_key w =
    (case secrets_ini w of
       NoFile \<Rightarrow> (Raise (KeyError (ascii ''openweather'')), w)
     | Malformed \<Rightarrow> (Raise ConfigparserError, w)
     | BadInterpolation \<Rightarrow> (Raise InterpolationSyntaxError, w)
     | Sections config \<Rightarrow>
         (case map_of config (ascii ''openweather'') of
            None \<Rightarrow> (Raise (KeyError (ascii ''openweather'')), w)
          | Some section \<Rightarrow>
              (case map_of section (ascii ''api_key'') of
                 None \<Rightarrow> (Raise (KeyError (ascii ''api_key'')), w)
               | Some api_key \<Rightarrow> (Return api_key, w))))"

definition BASE_WEATHER_API_URL :: pystr where
  "BASE_WEATHER_API_URL = ascii ''http://api.openweathermap.org/data/2.5/weather''"

fun join :: "pystr \<Rightarrow> pystr list \<Rightarrow> pystr" where
  "join sep [] = []"
| "join sep [x] = x"
| "join sep (x # y # ys) = x @ sep @ join sep (y # ys)"

definition build_weather_query :: "world \<Rightarrow> pystr list \<Rightarrow> pystr result \<times> world" where
  "build_weather_query w city_input =
    (case get_api_key w of
       (Return api_key, w1) \<Rightarrow>
         (let city_name = join (ascii '' '') city_input;
              units = ascii ''metric''
          in (bind (quote_plus city_name)
                (\<lambda>url_encoded_city_name.
                   Return (BASE_WEATHER_API_URL @ ascii ''?q='' @ url_encoded_city_name
                           @ ascii ''&units='' @ units @ ascii ''&appid='' @ api_key)),
              w1))
     | (Raise e, w1) \<Rightarrow> (Raise e, w1)
     | (SystemExit m, w1) \<Rightarrow> (SystemExit m, w1))"

section \<open>The request (lines 79 to 103)\<close>

text \<open>
  \<open>json.detect_encoding\<close> and \<open>json.loads\<close> on bytes: the bytes are decoded in the
  encoding that their first bytes suggest, with \<open>surrogatepass\<close>, and the text is
  scanned.
\<close>

definition detect_encoding :: "pybytes \<Rightarrow> encoding" where
  "detect_encoding b =
    (if prefix [0x00, 0x00, 0xFE, 0xFF] b \<or> prefix [0xFF, 0xFE, 0x00, 0x00] b then UTF32
     else if prefix [0xFE, 0xFF] b \<or> prefix [0xFF, 0xFE] b then UTF16
     else if prefix [0xEF, 0xBB, 0xBF] b then UTF8_SIG
     else if 4 \<le> length b then
       (if b ! 0 = 0 then (if b ! 1 \<noteq> 0 then UTF16_BE else UTF32_BE)
        else if b ! 1 = 0 then (if b ! 2 \<noteq> 0 \<or> b ! 3 \<noteq> 0 then UTF16_LE else UTF32_LE)
        else UTF8)
     else if length b = 2 then
       (if b ! 0 = 0 then UTF16_BE else if b ! 1 = 0 then UTF16_LE else UTF8)
     else UTF8)"

definition json_loads :: "py_lib \<Rightarrow> pybytes \<Rightarrow> json result" where
  "json_loads lib s =
    (case (case detect_encoding s of
             UTF8 \<Rightarrow> utf8_decode True s
           | enc \<Rightarrow> decode_other lib enc s) of
       None \<Rightarrow> Raise UnicodeDecodeError
     | Some text \<Rightarrow> json_scan lib text)"

definition get_weather_data :: "py_lib \<Rightarrow> world \<Rightarrow> pystr \<Rightarrow> json result \<times> world" where
  "get_weather_data lib w query_url =
    (let w1 = w\<lparr>requests := requests w @ [query_url]\<rparr>
     in case server w query_url of
          HTTPError code \<Rightarrow>
            (if code = 401 then (SystemExit (ascii ''Access denied. Check your API key.''), w1)
             else if code = 404 then
               (SystemExit (ascii ''Can't find weather data for this city.''), w1)
             else
               (SystemExit (ascii ''Something went wrong... ('' @ str_int code @ ascii '')''), w1))
        | Unreachable \<Rightarrow> (Raise URLError, w1)
        | Refused \<Rightarrow> (Raise InvalidURL, w)
        | Response data \<Rightarrow>
            (case json_loads lib data of
               Raise e \<Rightarrow>
                 (if e = JSONDecodeError
                  then (SystemExit (ascii ''Couldn't read the server response.''), w1)
                  else (Raise e, w1))
             | r \<Rightarrow> (r, w1)))"

section \<open>The display (lines 106 to 131)\<close>

text \<open>
  Every \<open>print\<close> of the function has an \<open>end\<close> of its own, so it appends its text
  and that end to standard output. The f-strings are evaluated before their \<open>print\<close>,
  so an exception leaves the output as the earlier calls made it. The degree marker is the
  literal of line 131 as the file holds it, the code points U+00C2 and U+00B0.
\<close>

definition print :: "pystr \<Rightarrow> world \<Rightarrow> world" where
  "print s w = w\<lparr>stdout := stdout w @ s\<rparr>"

definition display_weather_info :: "style_module \<Rightarrow> py_lib \<Rightarrow> world \<Rightarrow> json \<Rightarrow> unit result \<times> world" where
  "display_weather_info style lib w weather_data =
    (case getitem_str weather_data (ascii ''name'') of
       Raise e \<Rightarrow> (Raise e, w) | SystemExit m \<Rightarrow> (SystemExit m, w)
     | Return city \<Rightarrow>
    (case bind (bind (getitem_str weather_data (ascii ''weather'')) (\<lambda>l. getitem_int l 0))
               (\<lambda>entry. getitem_str entry (ascii ''id'')) of
       Raise e \<Rightarrow> (Raise e, w) | SystemExit m \<Rightarrow> (SystemExit m, w)
     | Return weather_id \<Rightarrow>
    (case bind (bind (getitem_str weather_data (ascii ''weather'')) (\<lambda>l. getitem_int l 0))
               (\<lambda>entry. getitem_str entry (ascii ''description'')) of
       Raise e \<Rightarrow> (Raise e, w) | SystemExit m \<Rightarrow> (SystemExit m, w)
     | Return weather_description \<Rightarrow>
    (case bind (getitem_str weather_data (ascii ''main''))
               (\<lambda>m. getitem_str m (ascii ''temp'')) of
       Raise e \<Rightarrow> (Raise e, w) | SystemExit m \<Rightarrow> (SystemExit m, w)
     | Return temperature \<Rightarrow>
    (let w1 = print (change_color style style_REVERSE) w
     in case format_center lib city (PADDING style) of
       Raise e \<Rightarrow> (Raise e, w1) | SystemExit m \<Rightarrow> (SystemExit m, w1)
     | Return city_field \<Rightarrow>
    (let w2 = print city_field w1;
         w3 = print (change_color style style_RESET) w2;
         (weather_symbol, color) = select_weather_display_params weather_id;
         w4 = print (change_color style color) w3;
         w5 = print (ascii [CHR 0x09] @ weather_symbol @ ascii '' '') w4
     in case (case weather_description of
                JStr d \<Rightarrow> format_center lib (JStr (capitalize lib d)) (PADDING style)
              | _ \<Rightarrow> Raise AttributeError) of
       Raise e \<Rightarrow> (Raise e, w5) | SystemExit m \<Rightarrow> (SystemExit m, w5)
     | Return description_field \<Rightarrow>
    (let w6 = print (ascii [CHR 0x09] @ description_field @ ascii '' '') w5;
         w7 = print (change_color style style_RESET) w6;
         w8 = print (ascii ''('' @ py_str lib temperature @ [0xC2, 0xB0] @ ascii ''C'' @ ascii '')'') w7
     in (Return (), w8))))))))"

section \<open>The program (lines 181 to 185)\<close>

text \<open>The main block, from the city tokens that the argument parser hands over.\<close>

definition main :: "style_module \<Rightarrow> py_lib \<Rightarrow> world \<Rightarrow> pystr list \<Rightarrow> unit result \<times> world" where
  "main style lib w city =
    (case build_weather_query w city of
       (Raise e, w1) \<Rightarrow> (Raise e, w1)
     | (SystemExit m, w1) \<Rightarrow> (SystemExit m, w1)
     | (Return query_url, w1) \<Rightarrow>
         (case get_weather_data lib w1 query_url of
            (Raise e, w2) \<Rightarrow> (Raise e, w2)
          | (SystemExit m, w2) \<Rightarrow> (SystemExit m, w2)
          | (Return weather_data, w2) \<Rightarrow> display_weather_info style lib w2 weather_data))"

section \<open>Auxiliary notions and sample inputs\<close>

text \<open>
  Both branches of \<open>quote_plus\<close> amount to this encoding of one byte: kept, or
  \<open>+\<close> for a space, or \<open>%XX\<close>.
\<close>

definition plus_byte :: "nat \<Rightarrow> pystr" where
  "plus_byte b =
    (if always_safe b then [b]
     else if b = 0x20 then [0x2B]
     else [0x25, hex_digit (b div 16), hex_digit (b mod 16)])"

text \<open>The strings that \<open>quote\<close> can encode: no surrogates, nothing beyond U+10FFFF.\<close>

definition encodable :: "pystr \<Rightarrow> bool" where
  "encodable s = list_all (\<lambda>c. c < 0x110000 \<and> \<not> is_surrogate c) s"

text \<open>The text written to standard output between two states of the world.\<close>

definition printed :: "world \<Rightarrow> world \<Rightarrow> pystr" where
  "printed w w' = drop (length (stdout w)) (stdout w')"

text \<open>
  A world whose \<open>secrets.ini\<close> holds the given key and whose server gives the same
  answer to every request; the response of the first end-to-end scenario, as bytes and as
  the value that \<open>json.loads\<close> makes of it; a library and a style module to run with.
\<close>

definition keyed_world :: "pystr \<Rightarrow> urlopen_result \<Rightarrow> world" where
  "keyed_world key answer =
    \<lparr>secrets_ini = Sections [(ascii ''openweather'', [(ascii ''api_key'', key)])],
     server = (\<lambda>url. answer), requests = [], stdout = []\<rparr>"

definition paris_body :: pybytes where
  \<open>paris_body = ascii ''{"name":"Paris","weather":[{"id":800,"description":"clear sky"}],"main":{"temp":18.5}}''\<close>

definition paris_weather :: json where
  "paris_weather =
    JDict [(ascii ''name'', JStr (ascii ''Paris'')),
           (ascii ''weather'',
              JList [JDict [(ascii ''id'', JInt 800),
                            (ascii ''description'', JStr (ascii ''clear sky''))]]),
           (ascii ''main'', JDict [(ascii ''temp'', JFloat (Finite 18.5))])]"

definition sample_lib :: py_lib where
  "sample_lib =
    \<lparr>repr_float = (\<lambda>x. if x = 18.5 then ascii ''18.5'' else ascii ''0.0''),
     repr_container = (\<lambda>v. ascii ''[]''),
     capitalize_unicode = (\<lambda>s. s),
     decode_other = (\<lambda>enc b. None),
     json_scan = (\<lambda>text. if text = paris_body then Return paris_weather
                          else Raise JSONDecodeError)\<rparr>"

definition sample_style :: style_module where
  "sample_style = \<lparr>PADDING = 20, change_color = (\<lambda>c. [0x1B] @ ascii ''[0m'')\<rparr>"

section \<open>Selection of symbol and colour\<close>

lemmas code_ranges = THUNDERSTORM_def DRIZZLE_def RAIN_def SNOW_def MIST_def SMOKE_def
  HAZE_def DUSTWHRIL_def FOG_def SAND_def DUST_def ASH_def SQUALL_def TORNADO_def
  CLEAR_def CLOUDY_def

text \<open>
  C1: for every weather code in a range or singleton of the table,
  \<open>_select_weather_display_params\<close> returns the pair of that row, the rows being tried in
  the order of the table and the first match winning; code 800 selects the Clear pair and
  code 801 the Cloudy pair.
\<close>

theorem select_table_rows:
  "(200 \<le> w \<and> w < 300 \<longrightarrow> select_weather_display_params (JInt w) = (symbol_thunderstorm, style_RED))
 \<and> (300 \<le> w \<and> w < 400 \<longrightarrow> select_weather_display_params (JInt w) = (symbol_drizzle, style_CYAN))
 \<and> (500 \<le> w \<and> w < 600 \<longrightarrow> select_weather_display_params (JInt w) = (symbol_rain, style_BLUE))
 \<and> (600 \<le> w \<and> w < 700 \<longrightarrow> select_weather_display_params (JInt w) = (symbol_snow, style_WHITE))
 \<and> (w = 701 \<longrightarrow> select_weather_display_params (JInt w) = (symbol_mist, style_PALEBLUEHUE))
 \<and> (w = 711 \<longrightarrow> select_weather_display_params (JInt w) = (symbol_smoke, style_ASH))
 \<and> (w = 721 \<longrightarrow> select_weather_display_params (JInt w) = (symbol_haze, style_LIGHTBLUE))
 \<and> (w = 731 \<longrightarrow> select_weather_display_params (JInt w) = (symbol_dustwhirl, style_BROWN))
 \<and> (w = 741 \<longrightarrow> select_weather_display_params (JInt w) = (symbol_fog, style_ASH))
 \<and> (w = 751 \<longrightarrow> select_weather_display_params (JInt w) = (symbol_sand, style_YELLOW))
 \<and> (w = 761 \<longrightarrow> select_weather_display_params (JInt w) = (symbol_dust, style_BROWN))
 \<and> (w = 762 \<longrightarrow> select_weather_display_params (JInt w) = (symbol_ash, style_RED))
 \<and> (w = 771 \<longrightarrow> select_weather_display_params (JInt w) = (symbol_squall, style_BLUE))
 \<and> (w = 781 \<longrightarrow> select_weather_display_params (JInt w) = (symbol_tornado, style_WHITE))
 \<and> (w = 800 \<longrightarrow> select_weather_display_params (JInt w) = (symbol_clear, style_YELLOW))
 \<and> (801 \<le> w \<and> w < 900 \<longrightarrow> select_weather_display_params (JInt w) = (symbol_cloudy, style_WHITE))
 \<and> select_weather_display_params (JInt w) = first_match display_table (symbol_rainbow, style_RESET) w
 \<and> select_weather_display_params (JInt 800) = (symbol_clear, style_YELLOW)
 \<and> select_weather_display_params (JInt 801) = (symbol_cloudy, style_WHITE)"
  by (simp add: select_weather_display_params_def display_table_def code_ranges)

theorem select_table_rows_witness:
  "select_weather_display_params (JInt 211) = (symbol_thunderstorm, style_RED)
 \<and> select_weather_display_params (JInt 741) = (symbol_fog, style_ASH)
 \<and> select_weather_display_params (JInt 899) = (symbol_cloudy, style_WHITE)"
  using select_table_rows [of 211] select_table_rows [of 741] select_table_rows [of 899]
  by simp

text \<open>
  C5: every integer code that no row of the table lists, such as 700 and 999, gets the
  fallback pair, the rainbow symbol with the reset colour; the function is total, it has
  a value for every integer code.
\<close>

theorem select_fallback:
  "(\<not> listed w \<longrightarrow> select_weather_display_params (JInt w) = (symbol_rainbow, style_RESET))
 \<and> select_weather_display_params (JInt 700) = (symbol_rainbow, style_RESET)
 \<and> select_weather_display_params (JInt 999) = (symbol_rainbow, style_RESET)
 \<and> (\<exists>p. select_weather_display_params (JInt w) = p)"
  by (auto simp add: select_weather_display_params_def listed_def code_ranges)

theorem select_fallback_witness:
  "\<not> listed 450 \<and> select_weather_display_params (JInt 450) = (symbol_rainbow, style_RESET)"
  using select_fallback [of 450] by (simp add: listed_def)

section \<open>UTF-8 encoding and decoding\<close>

lemma split64: "(d::nat) div 64 * (64 * k) + d mod 64 * k = d * k"
proof -
  have "d div 64 * (64 * k) + d mod 64 * k = (d div 64 * 64 + d mod 64) * k"
    by (simp only: add_mult_distrib mult.assoc)
  then show ?thesis
    by (simp only: div_mult_mod_eq)
qed

lemma rebuild3: "(c::nat) div 4096 * 4096 + c div 64 mod 64 * 64 + c mod 64 = c"
proof -
  have hi: "c div 4096 = c div 64 div 64"
    by (simp add: div_mult2_eq [symmetric])
  have "c div 64 div 64 * 4096 + c div 64 mod 64 * 64 = c div 64 * 64"
    using split64 [of "c div 64" 64] by simp
  then show ?thesis
    by (simp add: hi)
qed

lemma rebuild4:
  "(c::nat) div 262144 * 262144 + c div 4096 mod 64 * 4096 + c div 64 mod 64 * 64 + c mod 64 = c"
proof -
  have hi: "c div 262144 = c div 4096 div 64"
    by (simp add: div_mult2_eq [symmetric])
  have "c div 4096 div 64 * 262144 + c div 4096 mod 64 * 4096 = c div 4096 * 4096"
    using split64 [of "c div 4096" 4096] by simp
  then have "c div 262144 * 262144 + c div 4096 mod 64 * 4096 + c div 64 mod 64 * 64 + c mod 64
        = c div 4096 * 4096 + c div 64 mod 64 * 64 + c mod 64"
    by (simp only: hi)
  then show ?thesis
    by (simp only: rebuild3)
qed

lemma decode1:
  assumes "c < 0x80"
  shows "utf8_decode sp (c # rest) = map_option ((#) c) (utf8_decode sp rest)"
  using assms by simp

lemma decode2_bytes:
  assumes "0xC2 \<le> b" "b < 0xE0" "continuation b1" "c = (b - 0xC0) * 64 + (b1 - 0x80)"
  shows "utf8_decode sp (b # b1 # rest) = map_option ((#) c) (utf8_decode sp rest)"
  using assms by simp

lemma decode3_bytes:
  assumes "0xE0 \<le> b" "b < 0xF0" "continuation b1" "continuation b2"
    "c = (b - 0xE0) * 4096 + (b1 - 0x80) * 64 + (b2 - 0x80)" "0x800 \<le> c"
    "sp \<or> \<not> is_surrogate c"
  shows "utf8_decode sp (b # b1 # b2 # rest) = map_option ((#) c) (utf8_decode sp rest)"
  using assms by (simp add: Let_def)

lemma decode4_bytes:
  assumes "0xF0 \<le> b" "b < 0xF5" "continuation b1" "continuation b2" "continuation b3"
    "c = (b - 0xF0) * 262144 + (b1 - 0x80) * 4096 + (b2 - 0x80) * 64 + (b3 - 0x80)"
    "0x10000 \<le> c" "c < 0x110000"
  shows "utf8_decode sp (b # b1 # b2 # b3 # rest) = map_option ((#) c) (utf8_decode sp rest)"
  using assms by (simp add: Let_def)

lemma continuation_low6: "continuation (0x80 + x mod 64)"
  by (simp add: continuation_def)

lemma decode2:
  assumes "0x80 \<le> c" "c < 0x800"
  shows "utf8_decode sp ([0xC0 + c div 64, 0x80 + c mod 64] @ rest)
         = map_option ((#) c) (utf8_decode sp rest)"
proof -
  have lo: "0xC2 \<le> 0xC0 + c div 64" using assms by simp
  have hi: "0xC0 + c div 64 < 0xE0" using assms by simp
  have val: "c = (0xC0 + c div 64 - 0xC0) * 64 + (0x80 + c mod 64 - 0x80)"
    by simp
  show ?thesis
    using decode2_bytes [OF lo hi continuation_low6 val] by simp
qed

lemma decode3:
  assumes "0x800 \<le> c" "c < 0x10000" "\<not> is_surrogate c"
  shows "utf8_decode sp ([0xE0 + c div 4096, 0x80 + c div 64 mod 64, 0x80 + c mod 64] @ rest)
         = map_option ((#) c) (utf8_decode sp rest)"
proof -
  have lo: "0xE0 \<le> 0xE0 + c div 4096" by simp
  have hi: "0xE0 + c div 4096 < 0xF0" using assms by simp
  have val: "c = (0xE0 + c div 4096 - 0xE0) * 4096 + (0x80 + c div 64 mod 64 - 0x80) * 64
      + (0x80 + c mod 64 - 0x80)"
    by (simp add: rebuild3)
  have ns: "sp \<or> \<not> is_surrogate c" using assms by simp
  show ?thesis
    using decode3_bytes [OF lo hi continuation_low6 continuation_low6 val assms(1) ns] by simp
qed

lemma decode4:
  assumes "0x10000 \<le> c" "c < 0x110000"
  shows "utf8_decode sp ([0xF0 + c div 262144, 0x80 + c div 4096 mod 64,
           0x80 + c div 64 mod 64, 0x80 + c mod 64] @ rest)
         = map_option ((#) c) (utf8_decode sp rest)"
proof -
  have lo: "0xF0 \<le> 0xF0 + c div 262144" by simp
  have hi: "0xF0 + c div 262144 < 0xF5" using assms by simp
  have val: "c = (0xF0 + c div 262144 - 0xF0) * 262144 + (0x80 + c div 4096 mod 64 - 0x80) * 4096
      + (0x80 + c div 64 mod 64 - 0x80) * 64 + (0x80 + c mod 64 - 0x80)"
    by (simp add: rebuild4)
  show ?thesis
    using decode4_bytes [OF lo hi continuation_low6 continuation_low6 continuation_low6 val assms]
    by simp
qed

lemma utf8_char_1: "c < 0x80 \<Longrightarrow> utf8_char c = Some [c]"
  by (simp add: utf8_char_def)

lemma utf8_char_2:
  "0x80 \<le> c \<Longrightarrow> c < 0x800 \<Longrightarrow> utf8_char c = Some [0xC0 + c div 64, 0x80 + c mod 64]"
  by (simp add: utf8_char_def)

lemma utf8_char_3:
  "0x800 \<le> c \<Longrightarrow> c < 0x10000 \<Longrightarrow> utf8_char c =
     (if is_surrogate c then None
      else Some [0xE0 + c div 4096, 0x80 + c div 64 mod 64, 0x80 + c mod 64])"
  by (simp add: utf8_char_def)

lemma utf8_char_4:
  "0x10000 \<le> c \<Longrightarrow> utf8_char c =
     (if c < 0x110000
      then Some [0xF0 + c div 262144, 0x80 + c div 4096 mod 64, 0x80 + c div 64 mod 64,
                 0x80 + c mod 64]
      else None)"
  by (simp add: utf8_char_def is_surrogate_def)

lemma code_point_cases:
  obtains "c < 0x80" | "0x80 \<le> c" "c < 0x800" | "0x800 \<le> c" "c < 0x10000" | "(0x10000::nat) \<le> c"
  by linarith

lemma utf8_char_decode:
  assumes "utf8_char c = Some e"
  shows "utf8_decode sp (e @ rest) = map_option ((#) c) (utf8_decode sp rest)"
proof (cases c rule: code_point_cases)
  case 1
  from assms have e: "e = [c]"
    by (simp add: utf8_char_1 [OF 1])
  show ?thesis
    unfolding e using decode1 [OF 1] by simp
next
  case 2
  from assms have e: "e = [0xC0 + c div 64, 0x80 + c mod 64]"
    by (simp add: utf8_char_2 [OF 2])
  show ?thesis
    unfolding e by (rule decode2 [OF 2])
next
  case 3
  from assms have ns: "\<not> is_surrogate c"
    by (simp add: utf8_char_3 [OF 3] split: if_splits)
  from assms ns have e: "e = [0xE0 + c div 4096, 0x80 + c div 64 mod 64, 0x80 + c mod 64]"
    by (simp add: utf8_char_3 [OF 3])
  show ?thesis
    unfolding e by (rule decode3 [OF 3 ns])
next
  case 4
  from assms have lt: "c < 0x110000"
    by (simp add: utf8_char_4 [OF 4] split: if_splits)
  from assms lt have e: "e = [0xF0 + c div 262144, 0x80 + c div 4096 mod 64,
      0x80 + c div 64 mod 64, 0x80 + c mod 64]"
    by (simp add: utf8_char_4 [OF 4])
  show ?thesis
    unfolding e by (rule decode4 [OF 4 lt])
qed

lemma utf8_encode_Cons:
  "utf8_encode (c # cs) = Return bs \<longleftrightarrow>
     (\<exists>e rest. utf8_char c = Some e \<and> utf8_encode cs = Return rest \<and> bs = e @ rest)"
  by (cases "utf8_char c"; cases "utf8_encode cs") auto

lemma utf8_roundtrip:
  "utf8_encode s = Return bs \<Longrightarrow> utf8_decode sp bs = Some s"
proof (induction s arbitrary: bs)
  case Nil
  then show ?case by simp
next
  case (Cons c cs)
  from Cons.prems obtain e rest where
    e: "utf8_char c = Some e" and rest: "utf8_encode cs = Return rest" and bs: "bs = e @ rest"
    by (auto simp only: utf8_encode_Cons)
  from Cons.IH [OF rest] utf8_char_decode [OF e, of sp rest] show ?case
    by (simp only: bs option.map)
qed

lemma utf8_char_bytes:
  assumes "utf8_char c = Some e" "b \<in> set e"
  shows "b < 256"
proof (cases c rule: code_point_cases)
  case 1
  with assms show ?thesis by (auto simp add: utf8_char_1)
next
  case 2
  have "c div 64 < 32" using 2 by simp
  moreover have "c mod 64 < 64" by simp
  ultimately show ?thesis using 2 assms by (auto simp add: utf8_char_2)
next
  case 3
  have "c div 4096 < 16" using 3 by simp
  moreover have "c div 64 mod 64 < 64" "c mod 64 < 64" by simp_all
  ultimately show ?thesis using 3 assms by (auto simp add: utf8_char_3 split: if_splits)
next
  case 4
  from assms have lt: "c < 0x110000" using 4 by (simp add: utf8_char_4 split: if_splits)
  then have "c div 262144 < 5" by simp
  moreover have "c div 4096 mod 64 < 64" "c div 64 mod 64 < 64" "c mod 64 < 64" by simp_all
  ultimately show ?thesis using 4 assms lt by (auto simp add: utf8_char_4)
qed

lemma utf8_encode_bytes: "utf8_encode s = Return bs \<Longrightarrow> b \<in> set bs \<Longrightarrow> b < 256"
proof (induction s arbitrary: bs)
  case Nil
  then show ?case by simp
next
  case (Cons c cs)
  from Cons.prems(1) obtain e rest where
    e: "utf8_char c = Some e" and rest: "utf8_encode cs = Return rest" and bs: "bs = e @ rest"
    by (auto simp only: utf8_encode_Cons)
  from Cons.prems(2) bs have "b \<in> set e \<or> b \<in> set rest" by simp
  then show ?case
    using utf8_char_bytes [OF e] Cons.IH [OF rest] by blast
qed


section \<open>Percent-encoding and its inverse\<close>

lemma utf8_char_space:
  assumes "utf8_char c = Some e"
  shows "0x20 \<in> set e \<longleftrightarrow> c = 0x20"
proof (cases c rule: code_point_cases)
  case 1
  with assms show ?thesis by (auto simp add: utf8_char_1)
next
  case 2
  with assms show ?thesis by (auto simp add: utf8_char_2)
next
  case 3
  with assms show ?thesis by (auto simp add: utf8_char_3 split: if_splits)
next
  case 4
  with assms show ?thesis by (auto simp add: utf8_char_4 split: if_splits)
qed

lemma utf8_encode_space:
  "utf8_encode s = Return bs \<Longrightarrow> 0x20 \<in> set bs \<longleftrightarrow> 0x20 \<in> set s"
proof (induction s arbitrary: bs)
  case Nil
  then show ?case by simp
next
  case (Cons c cs)
  from Cons.prems obtain e rest where
    e: "utf8_char c = Some e" and rest: "utf8_encode cs = Return rest" and bs: "bs = e @ rest"
    by (auto simp only: utf8_encode_Cons)
  show ?case
    using utf8_char_space [OF e] Cons.IH [OF rest] by (auto simp add: bs)
qed

lemma quote_byte_no_space: "b \<noteq> 0x20 \<Longrightarrow> quote_byte [] b = plus_byte b"
  by (simp add: quote_byte_def plus_byte_def)

lemma hex_digit_not_space: "hex_digit n \<noteq> 0x20"
  by (simp add: hex_digit_def)

lemma quote_byte_space:
  "map (\<lambda>c. if c = 0x20 then 0x2B else c) (quote_byte [0x20] b) = plus_byte b"
  by (auto simp add: quote_byte_def plus_byte_def always_safe_def hex_digit_not_space)

lemma quote_plus_bytes:
  "quote_plus s = bind (utf8_encode s) (\<lambda>bs. Return (concat (map plus_byte bs)))"
proof (cases "utf8_encode s")
  case (Return bs)
  show ?thesis
  proof (cases "0x20 \<in> set s")
    case True
    have "map (\<lambda>c. if c = 0x20 then 0x2B else c) (concat (map (quote_byte [0x20]) bs))
        = concat (map plus_byte bs)"
      by (simp add: map_concat comp_def quote_byte_space)
    with True Return show ?thesis
      by (simp add: quote_plus_def quote_def)
  next
    case False
    with utf8_encode_space [OF Return] have "0x20 \<notin> set bs" by simp
    then have "map (quote_byte []) bs = map plus_byte bs"
      by (intro map_cong refl quote_byte_no_space) auto
    then have "concat (map (quote_byte []) bs) = concat (map plus_byte bs)"
      by (rule arg_cong)
    moreover from False Return
    have "quote_plus s = Return (concat (map (quote_byte []) bs))"
      by (simp add: quote_plus_def quote_def)
    ultimately show ?thesis
      using Return by simp
  qed
next
  case (Raise e)
  then show ?thesis by (simp add: quote_plus_def quote_def)
next
  case (SystemExit m)
  then show ?thesis by (simp add: quote_plus_def quote_def)
qed

lemma quote_plus_Return:
  "quote_plus s = Return e \<longleftrightarrow> (\<exists>bs. utf8_encode s = Return bs \<and> e = concat (map plus_byte bs))"
  by (cases "utf8_encode s") (auto simp add: quote_plus_bytes)

lemma hex_digit_is_hex: "n < 16 \<Longrightarrow> is_hex (hex_digit n)"
  by (auto simp add: hex_digit_def is_hex_def)

lemma hex_val_digit: "n < 16 \<Longrightarrow> hex_val (hex_digit n) = n"
  by (auto simp add: hex_digit_def hex_val_def)

lemma hex_digit_not_plus: "hex_digit n \<noteq> 0x2B"
  by (simp add: hex_digit_def)

lemma unquote_other: "p \<noteq> 0x25 \<Longrightarrow> unquote_to_bytes (p # rest) = p # unquote_to_bytes rest"
  by (cases "p # rest" rule: unquote_to_bytes.cases) auto

lemma unquote_escape:
  assumes "b < 256"
  shows "unquote_to_bytes (0x25 # hex_digit (b div 16) # hex_digit (b mod 16) # rest)
         = b # unquote_to_bytes rest"
proof -
  have hi: "b div 16 < 16" using assms by simp
  have lo: "b mod 16 < 16" by simp
  have "hex_val (hex_digit (b div 16)) * 16 + hex_val (hex_digit (b mod 16)) = b"
    by (simp add: hex_val_digit [OF hi] hex_val_digit [OF lo])
  then show ?thesis
    by (simp add: hex_digit_is_hex [OF hi] hex_digit_is_hex [OF lo])
qed

lemma unquote_plus_byte:
  assumes "b < 256"
  shows "unquote_to_bytes (map (\<lambda>c. if c = 0x2B then 0x20 else c) (plus_byte b) @ rest)
         = b # unquote_to_bytes rest"
proof -
  consider "always_safe b" | "\<not> always_safe b" "b = 0x20" | "\<not> always_safe b" "b \<noteq> 0x20"
    by blast
  then show ?thesis
  proof cases
    case 1
    then have "b \<noteq> 0x25" "b \<noteq> 0x2B" by (auto simp add: always_safe_def)
    with 1 show ?thesis by (simp add: plus_byte_def unquote_other)
  next
    case 2
    then show ?thesis by (simp add: plus_byte_def unquote_other)
  next
    case 3
    then show ?thesis
      by (simp add: plus_byte_def hex_digit_not_plus unquote_escape [OF assms]
            del: unquote_to_bytes.simps)
  qed
qed

lemma percent_roundtrip_bytes:
  "(\<And>b. b \<in> set bs \<Longrightarrow> b < 256) \<Longrightarrow>
   unquote_to_bytes (map (\<lambda>c. if c = 0x2B then 0x20 else c) (concat (map plus_byte bs))) = bs"
proof (induction bs)
  case Nil
  then show ?case by simp
next
  case (Cons b bs)
  have "b < 256" using Cons.prems by simp
  from unquote_plus_byte [OF this] Cons show ?case by simp
qed

lemma percent_decode_quote_plus:
  assumes "quote_plus s = Return e"
  shows "percent_decode e = Some s"
proof -
  from assms obtain bs where bs: "utf8_encode s = Return bs" and e: "e = concat (map plus_byte bs)"
    by (auto simp add: quote_plus_Return)
  have "unquote_to_bytes (map (\<lambda>c. if c = 0x2B then 0x20 else c) e) = bs"
    unfolding e using utf8_encode_bytes [OF bs] by (rule percent_roundtrip_bytes)
  then show ?thesis
    by (simp add: percent_decode_def utf8_roundtrip [OF bs])
qed


section \<open>The query URL\<close>

lemma hex_digit_plain:
  "hex_digit n \<noteq> 0x23 \<and> hex_digit n \<noteq> 0x26 \<and> hex_digit n \<noteq> 0x3D \<and> hex_digit n \<noteq> 0x3F"
  by (simp add: hex_digit_def)

lemma plus_byte_chars:
  "c \<in> set (plus_byte b) \<Longrightarrow> c \<noteq> 0x23 \<and> c \<noteq> 0x26 \<and> c \<noteq> 0x3D \<and> c \<noteq> 0x3F"
  using hex_digit_plain [of "b div 16"] hex_digit_plain [of "b mod 16"]
  by (auto simp add: plus_byte_def always_safe_def split: if_splits)

lemma quote_plus_chars:
  assumes "quote_plus s = Return e" "c \<in> set e"
  shows "c \<noteq> 0x23 \<and> c \<noteq> 0x26 \<and> c \<noteq> 0x3D \<and> c \<noteq> 0x3F"
proof -
  from assms(1) obtain bs where e: "e = concat (map plus_byte bs)"
    by (auto simp add: quote_plus_Return)
  with assms(2) obtain b where "c \<in> set (plus_byte b)"
    by auto
  then show ?thesis
    by (rule plus_byte_chars)
qed

lemma get_api_key_world: "snd (get_api_key w) = w"
  by (simp add: get_api_key_def split: ini_file.split option.split)

lemma build_weather_query_world: "snd (build_weather_query w city) = w"
proof -
  obtain r where "get_api_key w = (r, w)"
    using get_api_key_world [of w] by (cases "get_api_key w") simp
  then show ?thesis
    by (cases r) (simp_all add: build_weather_query_def)
qed

lemma build_weather_query_Return:
  "fst (build_weather_query w city) = Return url \<longleftrightarrow>
     (\<exists>key e. fst (get_api_key w) = Return key
        \<and> quote_plus (join (ascii '' '') city) = Return e
        \<and> url = BASE_WEATHER_API_URL @ ascii ''?q='' @ e @ ascii ''&units='' @ ascii ''metric''
                  @ ascii ''&appid='' @ key)"
proof -
  obtain r where g: "get_api_key w = (r, w)"
    using get_api_key_world [of w] by (cases "get_api_key w") simp
  show ?thesis
  proof (cases r)
    case (Return key)
    with g show ?thesis
      by (cases "quote_plus (join (ascii '' '') city)")
         (auto simp add: build_weather_query_def)
  next
    case (Raise e)
    with g show ?thesis by (simp add: build_weather_query_def)
  next
    case (SystemExit m)
    with g show ?thesis by (simp add: build_weather_query_def)
  qed
qed

lemma split_on_append:
  "sep \<notin> set a \<Longrightarrow> split_on sep (a @ sep # r) = a # split_on sep r"
  by (induction a) auto

lemma query_component_url:
  assumes "\<And>c. c \<in> set e \<Longrightarrow> c \<noteq> 0x23 \<and> c \<noteq> 0x3F"
  shows "query_component (BASE_WEATHER_API_URL @ ascii ''?q='' @ e @ ascii ''&units=''
            @ ascii ''metric'' @ ascii ''&appid='' @ key)
         = ascii ''q='' @ e @ ascii ''&units=metric&appid='' @ takeWhile (\<lambda>c. c \<noteq> 0x23) key"
proof -
  have e1: "takeWhile (\<lambda>c. c \<noteq> 0x23) (e @ r) = e @ takeWhile (\<lambda>c. c \<noteq> 0x23) r" for r
    using assms by (simp add: takeWhile_append2)
  show ?thesis
    by (simp add: query_component_def BASE_WEATHER_API_URL_def ascii_def e1)
qed

lemma query_param_q:
  assumes "\<And>c. c \<in> set e \<Longrightarrow> c \<noteq> 0x23 \<and> c \<noteq> 0x26 \<and> c \<noteq> 0x3D \<and> c \<noteq> 0x3F"
  shows "query_param (ascii ''q'') (BASE_WEATHER_API_URL @ ascii ''?q='' @ e @ ascii ''&units=''
            @ ascii ''metric'' @ ascii ''&appid='' @ key)
         = percent_decode e"
proof -
  have amp: "0x26 \<notin> set (ascii ''q='' @ e)"
    using assms by (auto simp add: ascii_def)
  have "split_on 0x26 (ascii ''q='' @ e @ ascii ''&units=metric&appid='' @ takeWhile (\<lambda>c. c \<noteq> 0x23) key)
      = (ascii ''q='' @ e)
        # split_on 0x26 (ascii ''units=metric&appid='' @ takeWhile (\<lambda>c. c \<noteq> 0x23) key)"
    using split_on_append [OF amp, of "ascii ''units=metric&appid='' @ takeWhile (\<lambda>c. c \<noteq> 0x23) key"]
    by (simp add: ascii_def)
  moreover have "field_name (ascii ''q='' @ e) = ascii ''q''"
    by (simp add: field_name_def ascii_def)
  moreover have "field_value (ascii ''q='' @ e) = e"
    by (simp add: field_value_def ascii_def)
  moreover have "\<And>c. c \<in> set e \<Longrightarrow> c \<noteq> 0x23 \<and> c \<noteq> 0x3F"
    using assms by blast
  ultimately show ?thesis
    by (simp add: query_param_def query_component_url)
qed


lemma utf8_char_Some: "c < 0x110000 \<Longrightarrow> \<not> is_surrogate c \<Longrightarrow> \<exists>e. utf8_char c = Some e"
  by (simp add: utf8_char_def)

lemma utf8_encode_encodable: "encodable s \<Longrightarrow> \<exists>bs. utf8_encode s = Return bs"
proof (induction s)
  case Nil
  then show ?case by simp
next
  case (Cons c cs)
  then obtain e bs where "utf8_char c = Some e" "utf8_encode cs = Return bs"
    using utf8_char_Some [of c] by (auto simp add: encodable_def)
  then show ?case by simp
qed

lemma quote_plus_encodable: "encodable s \<Longrightarrow> \<exists>e. quote_plus s = Return e"
  using utf8_encode_encodable [of s] by (auto simp add: quote_plus_Return)

lemma query_param_q_url:
  assumes "fst (build_weather_query w city_input) = Return url"
  shows "query_param (ascii ''q'') url = Some (join (ascii '' '') city_input)"
proof -
  from assms obtain key e where
    e: "quote_plus (join (ascii '' '') city_input) = Return e" and
    url: "url = BASE_WEATHER_API_URL @ ascii ''?q='' @ e @ ascii ''&units='' @ ascii ''metric''
                  @ ascii ''&appid='' @ key"
    by (auto simp add: build_weather_query_Return)
  have "query_param (ascii ''q'') url = percent_decode e"
    unfolding url by (rule query_param_q) (rule quote_plus_chars [OF e])
  then show ?thesis
    by (simp only: percent_decode_quote_plus [OF e])
qed

text \<open>
  C3, as amended: for every list of city tokens whose joined name \<open>quote_plus\<close> can
  encode (no surrogate code point in it) and with the key loaded,
  \<open>build_weather_query\<close> produces a URL; whenever it produces a URL, decoding the
  \<open>q\<close> parameter gives back the tokens joined by single spaces; two distinct city names
  never have the same encoding, nor the same URL.
\<close>

theorem query_roundtrip:
  "(fst (build_weather_query w city_input) = Return url \<longrightarrow>
      query_param (ascii ''q'') url = Some (join (ascii '' '') city_input))
 \<and> (fst (get_api_key w) = Return key \<and> encodable (join (ascii '' '') city_input) \<longrightarrow>
      (\<exists>u. fst (build_weather_query w city_input) = Return u))
 \<and> (quote_plus a = Return ea \<and> quote_plus b = Return eb \<and> a \<noteq> b \<longrightarrow> ea \<noteq> eb)
 \<and> (fst (build_weather_query w city_a) = Return url_a
      \<and> fst (build_weather_query w city_b) = Return url_b
      \<and> join (ascii '' '') city_a \<noteq> join (ascii '' '') city_b \<longrightarrow> url_a \<noteq> url_b)"
proof (intro conjI impI)
  assume "fst (build_weather_query w city_input) = Return url"
  then show "query_param (ascii ''q'') url = Some (join (ascii '' '') city_input)"
    by (rule query_param_q_url)
next
  assume "fst (get_api_key w) = Return key \<and> encodable (join (ascii '' '') city_input)"
  then show "\<exists>u. fst (build_weather_query w city_input) = Return u"
    using quote_plus_encodable [of "join (ascii '' '') city_input"]
    by (auto simp add: build_weather_query_Return)
next
  assume "quote_plus a = Return ea \<and> quote_plus b = Return eb \<and> a \<noteq> b"
  then show "ea \<noteq> eb"
    using percent_decode_quote_plus [of a ea] percent_decode_quote_plus [of b eb] by auto
next
  assume "fst (build_weather_query w city_a) = Return url_a
      \<and> fst (build_weather_query w city_b) = Return url_b
      \<and> join (ascii '' '') city_a \<noteq> join (ascii '' '') city_b"
  then show "url_a \<noteq> url_b"
    using query_param_q_url [of w city_a url_a] query_param_q_url [of w city_b url_b] by auto
qed

lemma sample_query:
  "fst (build_weather_query (keyed_world (ascii ''0a1b'') Unreachable) [ascii ''New'', ascii ''York''])
   = Return (ascii ''http://api.openweathermap.org/data/2.5/weather?q=New+York&units=metric&appid=0a1b'')"
  by code_simp

theorem query_roundtrip_witness:
  "fst (build_weather_query (keyed_world (ascii ''0a1b'') Unreachable) [ascii ''New'', ascii ''York''])
   = Return (ascii ''http://api.openweathermap.org/data/2.5/weather?q=New+York&units=metric&appid=0a1b'')
 \<and> query_param (ascii ''q'')
      (ascii ''http://api.openweathermap.org/data/2.5/weather?q=New+York&units=metric&appid=0a1b'')
   = Some (ascii ''New York'')"
proof -
  have j: "join (ascii '' '') [ascii ''New'', ascii ''York''] = ascii ''New York''"
    by (simp add: ascii_def)
  show ?thesis
    using sample_query
      query_roundtrip [of "keyed_world (ascii ''0a1b'') Unreachable" "[ascii ''New'', ascii ''York'']"
        "ascii ''http://api.openweathermap.org/data/2.5/weather?q=New+York&units=metric&appid=0a1b''"]
    by (simp only: j simp_thms)
qed


lemma encode_surrogate: "utf8_encode [0x5A, 0xDCFC, 0x72] = Raise UnicodeEncodeError"
  by (simp add: utf8_char_def is_surrogate_def)

text \<open>
  A token with a lone surrogate, as a command-line argument that is not UTF-8 arrives: the
  key is loaded, yet \<open>quote_plus\<close> raises and there is no URL whose \<open>q\<close> could be
  decoded.
\<close>

theorem query_roundtrip_counterexample:
  "fst (get_api_key (keyed_world (ascii ''0a1b'') Unreachable)) = Return (ascii ''0a1b'')
 \<and> fst (build_weather_query (keyed_world (ascii ''0a1b'') Unreachable) [[0x5A, 0xDCFC, 0x72]])
     = Raise UnicodeEncodeError"
  by (simp add: build_weather_query_def get_api_key_def keyed_world_def quote_plus_def
        quote_def encode_surrogate del: utf8_encode.simps)

text \<open>
  C10: the API key goes into the URL as it is, without percent-encoding, so that for a
  key with a reserved character, here \<open>a&b\<close>, the \<open>appid\<close> parameter read back from
  the URL is not the key.
\<close>

theorem api_key_verbatim:
  "(fst (get_api_key w) = Return key \<and> quote_plus (join (ascii '' '') city_input) = Return e \<longrightarrow>
      fst (build_weather_query w city_input)
      = Return (BASE_WEATHER_API_URL @ ascii ''?q='' @ e @ ascii ''&units=metric&appid='' @ key))
 \<and> fst (build_weather_query (keyed_world (ascii ''a&b'') Unreachable) [ascii ''Paris''])
     = Return (ascii ''http://api.openweathermap.org/data/2.5/weather?q=Paris&units=metric&appid=a&b'')
 \<and> query_param (ascii ''appid'')
       (ascii ''http://api.openweathermap.org/data/2.5/weather?q=Paris&units=metric&appid=a&b'')
     = Some (ascii ''a'')
 \<and> Some (ascii ''a'') \<noteq> Some (ascii ''a&b'')"
proof (intro conjI impI)
  assume "fst (get_api_key w) = Return key \<and> quote_plus (join (ascii '' '') city_input) = Return e"
  then have "fst (build_weather_query w city_input)
      = Return (BASE_WEATHER_API_URL @ ascii ''?q='' @ e @ ascii ''&units='' @ ascii ''metric''
                  @ ascii ''&appid='' @ key)"
    by (simp only: build_weather_query_Return) blast
  then show "fst (build_weather_query w city_input)
      = Return (BASE_WEATHER_API_URL @ ascii ''?q='' @ e @ ascii ''&units=metric&appid='' @ key)"
    by (simp add: ascii_def)
next
  show "fst (build_weather_query (keyed_world (ascii ''a&b'') Unreachable) [ascii ''Paris''])
     = Return (ascii ''http://api.openweathermap.org/data/2.5/weather?q=Paris&units=metric&appid=a&b'')"
    by code_simp
next
  show "query_param (ascii ''appid'')
       (ascii ''http://api.openweathermap.org/data/2.5/weather?q=Paris&units=metric&appid=a&b'')
     = Some (ascii ''a'')"
    by code_simp
next
  show "Some (ascii ''a'') \<noteq> Some (ascii ''a&b'')"
    by (simp add: ascii_def)
qed

theorem api_key_verbatim_witness:
  "fst (build_weather_query (keyed_world (ascii ''a+b'') Unreachable) [ascii ''Paris''])
     = Return (ascii ''http://api.openweathermap.org/data/2.5/weather?q=Paris&units=metric&appid=a+b'')"
proof -
  have k: "fst (get_api_key (keyed_world (ascii ''a+b'') Unreachable)) = Return (ascii ''a+b'')"
    by code_simp
  have q: "quote_plus (join (ascii '' '') [ascii ''Paris'']) = Return (ascii ''Paris'')"
    by code_simp
  show ?thesis
    using api_key_verbatim [of "keyed_world (ascii ''a+b'') Unreachable" "ascii ''a+b''"
        "[ascii ''Paris'']" "ascii ''Paris''"] k q
    by (simp add: BASE_WEATHER_API_URL_def ascii_def)
qed

lemma appid_with_equals_sign:
  "query_param (ascii ''appid'')
     (ascii ''http://api.openweathermap.org/data/2.5/weather?q=Paris&units=metric&appid=a=b'')
   = Some (ascii ''a=b'')"
  by code_simp

text \<open>
  C7: \<open>build_weather_query\<close> is deterministic: it leaves the world as it was, a second
  invocation gives the same result, and the result depends on the world only through the
  loaded key.
\<close>

theorem build_weather_query_deterministic:
  "build_weather_query (snd (build_weather_query w city_input)) city_input
     = build_weather_query w city_input
 \<and> snd (build_weather_query w city_input) = w
 \<and> (fst (get_api_key w) = fst (get_api_key w') \<longrightarrow>
      fst (build_weather_query w city_input) = fst (build_weather_query w' city_input))"
proof (intro conjI impI)
  show "build_weather_query (snd (build_weather_query w city_input)) city_input
     = build_weather_query w city_input"
    by (simp only: build_weather_query_world)
  show "snd (build_weather_query w city_input) = w"
    by (rule build_weather_query_world)
  assume same: "fst (get_api_key w) = fst (get_api_key w')"
  obtain r where g: "get_api_key w = (r, w)"
    using get_api_key_world [of w] by (cases "get_api_key w") simp
  with same have g': "get_api_key w' = (r, w')"
    using get_api_key_world [of w'] by (cases "get_api_key w'") simp
  show "fst (build_weather_query w city_input) = fst (build_weather_query w' city_input)"
    by (cases r) (simp_all add: build_weather_query_def g g')
qed

theorem build_weather_query_deterministic_witness:
  "fst (build_weather_query (keyed_world (ascii ''0a1b'') Unreachable) [ascii ''Paris''])
   = fst (build_weather_query (keyed_world (ascii ''0a1b'') (HTTPError 404)) [ascii ''Paris''])"
proof -
  have "fst (get_api_key (keyed_world (ascii ''0a1b'') Unreachable))
      = fst (get_api_key (keyed_world (ascii ''0a1b'') (HTTPError 404)))"
    by (simp add: get_api_key_def keyed_world_def)
  with build_weather_query_deterministic
    [of "keyed_world (ascii ''0a1b'') Unreachable" "[ascii ''Paris'']"
        "keyed_world (ascii ''0a1b'') (HTTPError 404)"]
  show ?thesis by simp
qed

section \<open>The credential loader\<close>

lemma main_no_query:
  "fst (get_api_key w) = Raise e \<Longrightarrow> main style lib w city_input = (Raise e, w)"
proof -
  assume r: "fst (get_api_key w) = Raise e"
  then have "get_api_key w = (Raise e, w)"
    using get_api_key_world [of w] by (cases "get_api_key w") simp
  then show ?thesis
    by (simp add: main_def build_weather_query_def)
qed

text \<open>
  C8: the credential loader returns the value of \<open>api_key\<close> in section
  \<open>openweather\<close> of the configuration file and changes nothing; when the file, the
  section or the key is missing it raises a lookup error that nothing catches, so that
  the program ends there with a non-zero status.
\<close>

theorem get_api_key_contract:
  "snd (get_api_key w) = w
 \<and> (secrets_ini w = Sections config \<and> map_of config (ascii ''openweather'') = Some section
      \<and> map_of section (ascii ''api_key'') = Some key \<longrightarrow> fst (get_api_key w) = Return key)
 \<and> (secrets_ini w = NoFile \<longrightarrow> fst (get_api_key w) = Raise (KeyError (ascii ''openweather'')))
 \<and> (secrets_ini w = Sections config \<and> map_of config (ascii ''openweather'') = None \<longrightarrow>
      fst (get_api_key w) = Raise (KeyError (ascii ''openweather'')))
 \<and> (secrets_ini w = Sections config \<and> map_of config (ascii ''openweather'') = Some section
      \<and> map_of section (ascii ''api_key'') = None \<longrightarrow>
      fst (get_api_key w) = Raise (KeyError (ascii ''api_key'')))
 \<and> (fst (get_api_key w) = Raise e \<longrightarrow>
      main style lib w city_input = (Raise e, w)
      \<and> exit_status (fst (main style lib w city_input)) \<noteq> 0)"
proof -
  have fatal: "fst (get_api_key w) = Raise e \<longrightarrow>
      main style lib w city_input = (Raise e, w)
      \<and> exit_status (fst (main style lib w city_input)) \<noteq> 0"
    by (simp add: main_no_query)
  show ?thesis
    by (intro conjI fatal) (simp_all add: get_api_key_def split: ini_file.split option.split)
qed

theorem get_api_key_contract_witness:
  "fst (get_api_key (keyed_world (ascii ''0a1b'') Unreachable)) = Return (ascii ''0a1b'')
 \<and> main sample_style sample_lib (keyed_world (ascii ''0a1b'') Unreachable\<lparr>secrets_ini := NoFile\<rparr>)
      [ascii ''Paris'']
    = (Raise (KeyError (ascii ''openweather'')),
       keyed_world (ascii ''0a1b'') Unreachable\<lparr>secrets_ini := NoFile\<rparr>)
 \<and> fst (get_api_key (keyed_world (ascii ''0a1b'') Unreachable\<lparr>secrets_ini := Sections []\<rparr>))
    = Raise (KeyError (ascii ''openweather''))
 \<and> fst (get_api_key (keyed_world (ascii ''0a1b'') Unreachable
           \<lparr>secrets_ini := Sections [(ascii ''openweather'', [])]\<rparr>))
    = Raise (KeyError (ascii ''api_key''))"
proof -
  let ?w = "keyed_world (ascii ''0a1b'') Unreachable"
  have s: "secrets_ini ?w = Sections [(ascii ''openweather'', [(ascii ''api_key'', ascii ''0a1b'')])]"
    by (simp add: keyed_world_def)
  have 1: "fst (get_api_key ?w) = Return (ascii ''0a1b'')"
    using get_api_key_contract [of ?w "[(ascii ''openweather'', [(ascii ''api_key'', ascii ''0a1b'')])]"
        "[(ascii ''api_key'', ascii ''0a1b'')]" "ascii ''0a1b''"] s
    by simp
  have 2: "fst (get_api_key (?w\<lparr>secrets_ini := NoFile\<rparr>)) = Raise (KeyError (ascii ''openweather''))"
    using get_api_key_contract [of "?w\<lparr>secrets_ini := NoFile\<rparr>"] by simp
  have 3: "main sample_style sample_lib (?w\<lparr>secrets_ini := NoFile\<rparr>) [ascii ''Paris'']
      = (Raise (KeyError (ascii ''openweather'')), ?w\<lparr>secrets_ini := NoFile\<rparr>)"
    using get_api_key_contract [of "?w\<lparr>secrets_ini := NoFile\<rparr>" _ _ _
        "KeyError (ascii ''openweather'')" sample_style sample_lib "[ascii ''Paris'']"] 2
    by simp
  have 4: "fst (get_api_key (?w\<lparr>secrets_ini := Sections []\<rparr>)) = Raise (KeyError (ascii ''openweather''))"
    using get_api_key_contract [of "?w\<lparr>secrets_ini := Sections []\<rparr>" "[]"] by simp
  have 5: "fst (get_api_key (?w\<lparr>secrets_ini := Sections [(ascii ''openweather'', [])]\<rparr>))
      = Raise (KeyError (ascii ''api_key''))"
    using get_api_key_contract [of "?w\<lparr>secrets_ini := Sections [(ascii ''openweather'', [])]\<rparr>"
        "[(ascii ''openweather'', [])]" "[]"]
    by simp
  from 1 3 4 5 show ?thesis by simp
qed

section \<open>The request\<close>

text \<open>
  C2: when the server answers with an HTTP error status, \<open>get_weather_data\<close> ends the
  process through \<open>sys.exit\<close>, with a non-zero status and the message that the status
  determines: the access message for 401, the city message for 404, and for every other
  status a message that holds the status number. The request is made once: the log of
  requests grows by this one URL.
\<close>

theorem get_weather_data_http_error:
  "server w query_url = HTTPError code \<Longrightarrow>
     fst (get_weather_data lib w query_url)
       = SystemExit (if code = 401 then ascii ''Access denied. Check your API key.''
                     else if code = 404 then ascii ''Can't find weather data for this city.''
                     else ascii ''Something went wrong... ('' @ str_int code @ ascii '')'')
   \<and> exit_status (fst (get_weather_data lib w query_url)) \<noteq> 0
   \<and> requests (snd (get_weather_data lib w query_url)) = requests w @ [query_url]
   \<and> stdout (snd (get_weather_data lib w query_url)) = stdout w"
  by (simp add: get_weather_data_def)

lemma str_int_503: "str_int 503 = ascii ''503''"
  by code_simp

theorem get_weather_data_http_error_witness:
  "fst (get_weather_data sample_lib (keyed_world (ascii ''0a1b'') (HTTPError 503)) (ascii ''http://x''))
     = SystemExit (ascii ''Something went wrong... (503)'')
 \<and> fst (get_weather_data sample_lib (keyed_world (ascii ''0a1b'') (HTTPError 401)) (ascii ''http://x''))
     = SystemExit (ascii ''Access denied. Check your API key.'')
 \<and> requests (snd (get_weather_data sample_lib (keyed_world (ascii ''0a1b'') (HTTPError 404))
       (ascii ''http://x''))) = [ascii ''http://x'']"
proof -
  have s: "server (keyed_world (ascii ''0a1b'') a) u = a" for a u
    by (simp add: keyed_world_def)
  have r: "requests (keyed_world k a) = []" for k a
    by (simp add: keyed_world_def)
  show ?thesis
    using get_weather_data_http_error [OF s [of "HTTPError 503" "ascii ''http://x''"], of sample_lib]
      get_weather_data_http_error [OF s [of "HTTPError 401" "ascii ''http://x''"], of sample_lib]
      get_weather_data_http_error [OF s [of "HTTPError 404" "ascii ''http://x''"], of sample_lib]
    by (simp add: r str_int_503 ascii_def)
qed

lemma get_weather_data_response:
  "server w query_url = Response data \<Longrightarrow>
     fst (get_weather_data lib w query_url)
       = (case json_loads lib data of
            Raise e \<Rightarrow> if e = JSONDecodeError
                       then SystemExit (ascii ''Couldn't read the server response.'')
                       else Raise e
          | r \<Rightarrow> r)"
  by (simp add: get_weather_data_def split: result.split)

lemma json_loads_undecodable: "json_loads lib [0xFF] = Raise UnicodeDecodeError"
  by (simp add: json_loads_def detect_encoding_def)

text \<open>
  C6: on a successful response the body is parsed; \<open>JSONDecodeError\<close> becomes the
  message about the unreadable response and a parsed value is returned
  (\<open>get_weather_data_response\<close>). But parsing also fails where the body is not text:
  for the one-byte body \<open>0xFF\<close>, \<open>json.loads\<close> raises \<open>UnicodeDecodeError\<close>, which the
  handler does not catch, and the message is not given.
\<close>

theorem get_weather_data_undecodable_body:
  "json_loads lib [0xFF] = Raise UnicodeDecodeError
 \<and> fst (get_weather_data lib (w\<lparr>server := \<lambda>url. Response [0xFF]\<rparr>) query_url)
     = Raise UnicodeDecodeError
 \<and> fst (get_weather_data lib (w\<lparr>server := \<lambda>url. Response [0xFF]\<rparr>) query_url)
     \<noteq> SystemExit (ascii ''Couldn't read the server response.'')"
  by (simp add: get_weather_data_def json_loads_undecodable)


section \<open>The display\<close>

text \<open>
  C9, as amended: for a dictionary whose \<open>weather\<close> entry is the empty list,
  \<open>display_weather_info\<close> raises before it prints anything; the exception is
  \<open>IndexError\<close> if the dictionary has a \<open>name\<close> entry, and the \<open>KeyError\<close> of the first
  lookup if it has none.
\<close>

theorem display_empty_weather_list:
  "map_of d (ascii ''weather'') = Some (JList []) \<Longrightarrow>
     (map_of d (ascii ''name'') \<noteq> None \<longrightarrow>
        display_weather_info style lib w (JDict d) = (Raise IndexError, w))
   \<and> (map_of d (ascii ''name'') = None \<longrightarrow>
        display_weather_info style lib w (JDict d) = (Raise (KeyError (ascii ''name'')), w))"
  by (auto simp add: display_weather_info_def py_index_def)

theorem display_empty_weather_list_witness:
  "display_weather_info sample_style sample_lib (keyed_world [] Unreachable)
     (JDict [(ascii ''name'', JStr (ascii ''Paris'')), (ascii ''weather'', JList [])])
   = (Raise IndexError, keyed_world [] Unreachable)
 \<and> display_weather_info sample_style sample_lib (keyed_world [] Unreachable)
     (JDict [(ascii ''weather'', JList []), (ascii ''main'', JNull)])
   = (Raise (KeyError (ascii ''name'')), keyed_world [] Unreachable)"
  using display_empty_weather_list
      [of "[(ascii ''name'', JStr (ascii ''Paris'')), (ascii ''weather'', JList [])]"
          sample_style sample_lib "keyed_world [] Unreachable"]
    display_empty_weather_list
      [of "[(ascii ''weather'', JList []), (ascii ''main'', JNull)]"
          sample_style sample_lib "keyed_world [] Unreachable"]
  by (simp add: ascii_def)

text \<open>
  A dictionary with an empty \<open>weather\<close> list and no \<open>name\<close>: the exception is not the
  index error.
\<close>

theorem display_empty_weather_list_counterexample:
  "map_of [(ascii ''weather'', JList [])] (ascii ''weather'') = Some (JList [])
 \<and> fst (display_weather_info sample_style sample_lib (keyed_world [] Unreachable)
          (JDict [(ascii ''weather'', JList [])])) \<noteq> Raise IndexError"
  by (simp add: display_weather_info_def ascii_def)

lemma display_paris:
  assumes "repr_float lib 18.5 = ascii ''18.5''"
  shows "display_weather_info style lib w paris_weather
    = (Return (),
       w\<lparr>stdout := stdout w @ change_color style style_REVERSE
            @ center (ascii ''Paris'') (PADDING style)
            @ change_color style style_RESET @ change_color style style_YELLOW
            @ [0x09] @ symbol_clear @ [0x20]
            @ [0x09] @ center (ascii ''Clear sky'') (PADDING style) @ [0x20]
            @ change_color style style_RESET
            @ ascii ''(18.5'' @ [0xC2, 0xB0] @ ascii ''C)''\<rparr>)"
proof -
  have t: "repr_float lib (37 / 2) = [0x31, 0x38, 0x2E, 0x35]"
    using assms by (simp add: ascii_def)
  show ?thesis
    by (simp add: display_weather_info_def paris_weather_def print_def Let_def py_index_def
          select_weather_display_params_def code_ranges capitalize_def ascii_upper_def
          ascii_lower_def ascii_def t)
qed


lemma sublist_center: "sublist s (center s width)"
  by (simp add: center_def Let_def)

lemma quote_plus_Paris: "quote_plus (ascii ''Paris'') = Return (ascii ''Paris'')"
  by code_simp

lemma main_paris:
  assumes "fst (get_api_key w) = Return key"
    and "server w (BASE_WEATHER_API_URL @ ascii ''?q=Paris&units=metric&appid='' @ key)
         = Response body"
    and "json_loads lib body = Return paris_weather"
  shows "main style lib w [ascii ''Paris'']
    = display_weather_info style lib
        (w\<lparr>requests := requests w
            @ [BASE_WEATHER_API_URL @ ascii ''?q=Paris&units=metric&appid='' @ key]\<rparr>)
        paris_weather"
proof -
  have g: "get_api_key w = (Return key, w)"
    using assms(1) get_api_key_world [of w] by (cases "get_api_key w") simp
  have u: "ascii ''?q='' @ ascii ''Paris'' @ ascii ''&units='' @ ascii ''metric'' @ ascii ''&appid='' @ key
      = ascii ''?q=Paris&units=metric&appid='' @ key"
    by (simp add: ascii_def)
  have q: "build_weather_query w [ascii ''Paris'']
      = (Return (BASE_WEATHER_API_URL @ ascii ''?q=Paris&units=metric&appid='' @ key), w)"
    by (simp add: build_weather_query_def g quote_plus_Paris u)
  show ?thesis
    by (simp add: main_def q get_weather_data_def assms(2,3))
qed

lemma sublist_skip: "sublist s r \<Longrightarrow> sublist s (a @ r)"
  by (metis sublist_append)

lemma sublist_head: "sublist s (s @ b)"
  by simp

lemma sublist_center_head: "sublist s (center s width @ b)"
  using sublist_center [of s width] by (metis sublist_append)

lemma sublist_temperature: "sublist (ascii ''18.5'') (ascii ''(18.5'' @ b)"
  by (simp add: ascii_def sublist_Cons_right)

text \<open>
  C4, as amended: with the city tokens \<open>["Paris"]\<close>, a key in place and the response of
  the first scenario, the program returns normally and what it prints contains
  \<open>Paris\<close>, the symbol of the Clear row, the description as \<open>str.capitalize\<close> gives it,
  \<open>Clear sky\<close>, and the temperature \<open>18.5\<close>.
\<close>

theorem paris_scenario:
  assumes "fst (get_api_key w) = Return key"
    and "server w (BASE_WEATHER_API_URL @ ascii ''?q=Paris&units=metric&appid='' @ key)
         = Response body"
    and "json_loads lib body = Return paris_weather"
    and "repr_float lib 18.5 = ascii ''18.5''"
  shows "fst (main style lib w [ascii ''Paris'']) = Return ()
    \<and> sublist (ascii ''Paris'') (printed w (snd (main style lib w [ascii ''Paris''])))
    \<and> sublist symbol_clear (printed w (snd (main style lib w [ascii ''Paris''])))
    \<and> sublist (ascii ''Clear sky'') (printed w (snd (main style lib w [ascii ''Paris''])))
    \<and> sublist (ascii ''18.5'') (printed w (snd (main style lib w [ascii ''Paris''])))"
proof -
  have f: "fst (main style lib w [ascii ''Paris'']) = Return ()"
    by (simp add: main_paris [OF assms(1-3)] display_paris [OF assms(4)])
  have p: "printed w (snd (main style lib w [ascii ''Paris'']))
      = change_color style style_REVERSE
        @ center (ascii ''Paris'') (PADDING style)
        @ change_color style style_RESET @ change_color style style_YELLOW
        @ [0x09] @ symbol_clear @ [0x20]
        @ [0x09] @ center (ascii ''Clear sky'') (PADDING style) @ [0x20]
        @ change_color style style_RESET
        @ ascii ''(18.5'' @ [0xC2, 0xB0] @ ascii ''C)''"
    by (simp add: main_paris [OF assms(1-3)] display_paris [OF assms(4)] printed_def)
  show ?thesis
    unfolding p f
    by (intro conjI refl sublist_head sublist_center_head sublist_temperature sublist_skip)
qed

lemma sample_loads: "json_loads sample_lib paris_body = Return paris_weather"
  by code_simp

theorem paris_scenario_witness:
  "fst (main sample_style sample_lib (keyed_world (ascii ''0a1b'') (Response paris_body))
         [ascii ''Paris'']) = Return ()
 \<and> sublist (ascii ''Clear sky'')
      (printed (keyed_world (ascii ''0a1b'') (Response paris_body))
         (snd (main sample_style sample_lib (keyed_world (ascii ''0a1b'') (Response paris_body))
                [ascii ''Paris''])))"
proof -
  have k: "fst (get_api_key (keyed_world (ascii ''0a1b'') (Response paris_body))) = Return (ascii ''0a1b'')"
    by (simp add: get_api_key_def keyed_world_def)
  have s: "server (keyed_world (ascii ''0a1b'') (Response paris_body))
      (BASE_WEATHER_API_URL @ ascii ''?q=Paris&units=metric&appid='' @ ascii ''0a1b'')
      = Response paris_body"
    by (simp add: keyed_world_def)
  have r: "repr_float sample_lib 18.5 = ascii ''18.5''"
    by (simp add: sample_lib_def)
  from paris_scenario [OF k s sample_loads r, of sample_style] show ?thesis
    by simp
qed

text \<open>The printed text of the scenario does not contain \<open>Clear Sky\<close>.\<close>

theorem paris_scenario_counterexample:
  "fst (main sample_style sample_lib (keyed_world (ascii ''0a1b'') (Response paris_body))
         [ascii ''Paris'']) = Return ()
 \<and> \<not> sublist (ascii ''Clear Sky'')
      (printed (keyed_world (ascii ''0a1b'') (Response paris_body))
         (snd (main sample_style sample_lib (keyed_world (ascii ''0a1b'') (Response paris_body))
                [ascii ''Paris''])))"
  by code_simp

end
